theory Spec2Isabelle
  imports Complex_Main
begin

section \<open>Feature mappings\<close>

text \<open>
  A feature mapping is a Python dictionary from feature names to numbers. Python's ints
  and floats are read as real numbers; every threshold of the scorers is a comparison
  with a decimal constant. \<open>dict_get d k dflt\<close> is \<^verbatim>\<open>d.get(k, dflt)\<close>.
\<close>

type_synonym features = "string \<rightharpoonup> real"

definition dict_get :: "features \<Rightarrow> string \<Rightarrow> real \<Rightarrow> real" where
  "dict_get d k dflt = (case d k of None \<Rightarrow> dflt | Some v \<Rightarrow> v)"

section \<open>Heuristic scorers (wildfire\_risk\_model.py)\<close>

text \<open>\<^verbatim>\<open>_calculate_vegetation_risk\<close>: first matching branch wins; \<open>ndmi\<close> is read and unused.\<close>

definition calculate_vegetation_risk :: "features \<Rightarrow> real" where
  "calculate_vegetation_risk data =
     (let ndvi = dict_get data ''ndvi'' 0;
          ndmi = dict_get data ''ndmi'' 0;
          fuel_moisture = dict_get data ''fuel_moisture'' 50
      in if ndvi > 0.6 \<and> fuel_moisture < 30 then 80
         else if ndvi > 0.4 \<and> fuel_moisture < 40 then 60
         else if ndvi > 0.2 then 40
         else 20)"

text \<open>\<^verbatim>\<open>_calculate_weather_risk\<close>: four independent ladders added up, then \<open>min\<close> with 100.\<close>

definition calculate_weather_risk :: "features \<Rightarrow> real" where
  "calculate_weather_risk data =
     (let temp = dict_get data ''temperature'' 20;
          humidity = dict_get data ''humidity'' 50;
          wind_speed = dict_get data ''wind_speed'' 0;
          days_since_rain = dict_get data ''days_since_rain'' 0;
          weather_risk = 0;
          weather_risk = (if temp > 30 then weather_risk + 25
                          else if temp > 25 then weather_risk + 15 else weather_risk);
          weather_risk = (if humidity < 30 then weather_risk + 25
                          else if humidity < 40 then weather_risk + 15 else weather_risk);
          weather_risk = (if wind_speed > 20 then weather_risk + 25
                          else if wind_speed > 10 then weather_risk + 15 else weather_risk);
          weather_risk = (if days_since_rain > 14 then weather_risk + 25
                          else if days_since_rain > 7 then weather_risk + 15 else weather_risk)
      in min weather_risk 100)"

text \<open>\<^verbatim>\<open>_calculate_terrain_risk\<close>: the sum is returned as it is, with no \<open>min\<close>.\<close>

definition calculate_terrain_risk :: "features \<Rightarrow> real" where
  "calculate_terrain_risk data =
     (let slope = dict_get data ''slope'' 0;
          aspect = dict_get data ''aspect'' 0;
          terrain_risk = 0;
          terrain_risk = (if slope > 30 then terrain_risk + 40
                          else if slope > 20 then terrain_risk + 25
                          else if slope > 10 then terrain_risk + 15 else terrain_risk);
          terrain_risk = (if 135 \<le> aspect \<and> aspect \<le> 225 then terrain_risk + 20
                          else terrain_risk)
      in terrain_risk)"

text \<open>\<^verbatim>\<open>_calculate_proximity_risk\<close>.\<close>

definition calculate_proximity_risk :: "features \<Rightarrow> real" where
  "calculate_proximity_risk data =
     (let distance_to_water = dict_get data ''distance_to_water'' 10;
          distance_to_road = dict_get data ''distance_to_road'' 1;
          population_density = dict_get data ''population_density'' 100;
          proximity_risk = 0;
          proximity_risk = (if distance_to_water > 5 then proximity_risk + 30
                            else if distance_to_water > 2 then proximity_risk + 20
                            else proximity_risk);
          proximity_risk = (if distance_to_road > 5 then proximity_risk + 30
                            else if distance_to_road > 2 then proximity_risk + 20
                            else proximity_risk);
          proximity_risk = (if population_density > 1000 then proximity_risk + 20
                            else proximity_risk)
      in min proximity_risk 100)"

section \<open>Risk level and recommendations\<close>

text \<open>\<^verbatim>\<open>_get_risk_level\<close> returns one of five strings.\<close>

definition get_risk_level :: "real \<Rightarrow> string" where
  "get_risk_level risk_score =
     (if risk_score \<ge> 80 then ''EXTREME''
      else if risk_score \<ge> 60 then ''HIGH''
      else if risk_score \<ge> 40 then ''MODERATE''
      else if risk_score \<ge> 20 then ''LOW''
      else ''MINIMAL'')"

record recommendation =
  priority :: string
  action :: string
  description :: string
  estimated_cost :: int
  risk_reduction :: int

text \<open>
  \<^verbatim>\<open>_generate_recommendations\<close>: the list starts empty and each \<open>if\<close> appends to it;
  \<open>weather_risk\<close> is a parameter that no branch reads.
\<close>

definition generate_recommendations :: "real \<Rightarrow> real \<Rightarrow> real \<Rightarrow> real \<Rightarrow> recommendation list" where
  "generate_recommendations risk_score veg_risk weather_risk terrain_risk =
     (let recommendations = [];
          recommendations =
            (if veg_risk > 60 then recommendations @
               [\<lparr>priority = ''HIGH'', action = ''Vegetation Management'',
                 description = ''Create defensible space by clearing vegetation within 30 feet of structures'',
                 estimated_cost = 2500, risk_reduction = 15\<rparr>]
             else recommendations);
          recommendations =
            (if risk_score > 70 then recommendations @
               [\<lparr>priority = ''HIGH'', action = ''Install Sprinkler System'',
                 description = ''Install rooftop sprinkler system for ember protection'',
                 estimated_cost = 5000, risk_reduction = 20\<rparr>]
             else recommendations);
          recommendations =
            (if terrain_risk > 50 then recommendations @
               [\<lparr>priority = ''MEDIUM'', action = ''Create Fuel Breaks'',
                 description = ''Establish fuel breaks on steep slopes to slow fire spread'',
                 estimated_cost = 3500, risk_reduction = 10\<rparr>]
             else recommendations)
      in recommendations @
           [\<lparr>priority = ''MEDIUM'', action = ''Emergency Planning'',
             description = ''Develop and practice evacuation plan with multiple routes'',
             estimated_cost = 0, risk_reduction = 5\<rparr>])"

text \<open>
  The defaults the four scorers pass to \<^verbatim>\<open>data.get\<close>, collected in one table, and a
  mapping completed with a table of defaults: every absent key gets the table's value.
\<close>

definition heuristic_default :: "string \<Rightarrow> real" where
  "heuristic_default k =
     (if k = ''fuel_moisture'' then 50
      else if k = ''temperature'' then 20
      else if k = ''humidity'' then 50
      else if k = ''distance_to_water'' then 10
      else if k = ''distance_to_road'' then 1
      else if k = ''population_density'' then 100
      else 0)"

definition extend_with :: "(string \<Rightarrow> real) \<Rightarrow> features \<Rightarrow> features" where
  "extend_with dflt d = (\<lambda>k. case d k of None \<Rightarrow> Some (dflt k) | Some v \<Rightarrow> Some v)"

section \<open>Model inference (wildfire\_risk\_model.py)\<close>

datatype py_error = ZeroDivisionError | IndexError | ValueError

definition feature_names :: "string list" where
  "feature_names =
     [''ndvi'', ''ndmi'', ''temperature'', ''humidity'', ''wind_speed'',
      ''slope'', ''aspect'', ''elevation'', ''distance_to_road'',
      ''distance_to_water'', ''fuel_moisture'', ''drought_index'',
      ''days_since_rain'', ''population_density'', ''historical_fires'']"

text \<open>
  \<^verbatim>\<open>self.scaler\<close> is scikit-learn's \<^verbatim>\<open>StandardScaler\<close>, a library outside the
  repository. Its state is the pair \<^verbatim>\<open>mean_\<close>, \<^verbatim>\<open>scale_\<close>, absent until the first fit.
  \<open>scaler_fit\<close> follows the library's documented behaviour on a matrix of samples (a list
  of rows of one length): the mean and the population variance of every column, the scale
  being the square root of the variance, and 1 where that is zero; no sample is a
  \<^verbatim>\<open>ValueError\<close>. \<open>scaler_transform\<close> is \<open>(x - mean) / scale\<close> per column.
\<close>

record standard_scaler =
  mean_param :: "real list option"
  scale_param :: "real list option"

definition scaler_fit :: "real list list \<Rightarrow> py_error + standard_scaler" where
  "scaler_fit X =
     (case X of
        [] \<Rightarrow> Inl ValueError
      | row # _ \<Rightarrow>
          (let n = real (length X);
               cols = [0..<length row];
               mean = map (\<lambda>j. sum_list (map (\<lambda>r. r ! j) X) / n) cols;
               var = map (\<lambda>j. sum_list (map (\<lambda>r. (r ! j - mean ! j)\<^sup>2) X) / n) cols;
               scale = map (\<lambda>v. if sqrt v = 0 then 1 else sqrt v) var
           in Inr \<lparr>mean_param = Some mean, scale_param = Some scale\<rparr>))"

definition scaler_transform :: "real list \<Rightarrow> real list \<Rightarrow> real list list \<Rightarrow> real list list" where
  "scaler_transform mean scale X =
     map (\<lambda>r. map (\<lambda>j. (r ! j - mean ! j) / scale ! j) [0..<length r]) X"

definition scaler_fit_transform ::
  "real list list \<Rightarrow> py_error + (standard_scaler \<times> real list list)" where
  "scaler_fit_transform X =
     (case scaler_fit X of
        Inl e \<Rightarrow> Inl e
      | Inr sc \<Rightarrow>
          (case (mean_param sc, scale_param sc) of
             (Some mean, Some scale) \<Rightarrow> Inr (sc, scaler_transform mean scale X)
           | _ \<Rightarrow> Inl ValueError))"

text \<open>
  The object's state: the network and the scaler. \<open>model_predict\<close> is what
  \<^verbatim>\<open>float(self.model.predict(X)[0][0])\<close> gives for the one-row matrix \<open>[row]\<close>: the
  trained regression function, kept abstract. Prediction does not change the network.
\<close>

record wildfire_risk_model =
  model_predict :: "real list \<Rightarrow> real"
  scaler :: standard_scaler

record fire_spread =
  spread_rate_kmh :: real
  primary_direction :: real
  time_to_property_minutes :: real
  evacuation_time_needed :: int
  safe_zones :: "string list"

text \<open>\<^verbatim>\<open>_simulate_fire_spread\<close>: the division by a zero rate raises.\<close>

definition model_simulate_fire_spread :: "features \<Rightarrow> py_error + fire_spread" where
  "model_simulate_fire_spread data =
     (let wind_speed = dict_get data ''wind_speed'' 10;
          wind_direction = dict_get data ''wind_direction'' 0;
          slope = dict_get data ''slope'' 0;
          base_spread_rate = 0.5;
          wind_factor = 1 + (wind_speed / 20);
          slope_factor = 1 + (slope / 30);
          spread_rate = base_spread_rate * wind_factor * slope_factor
      in if spread_rate = 0 then Inl ZeroDivisionError
         else Inr \<lparr>spread_rate_kmh = spread_rate,
                   primary_direction = wind_direction,
                   time_to_property_minutes = 60 / spread_rate,
                   evacuation_time_needed = 30,
                   safe_zones = [''North'', ''Northeast'']\<rparr>)"

record component_scores =
  vegetation_risk :: real
  weather_risk :: real
  terrain_risk :: real
  proximity_risk :: real

record risk_report =
  overall_risk_score :: real
  risk_level :: string
  component_scores :: component_scores
  recommendations :: "recommendation list"
  fire_spread_simulation :: fire_spread
  confidence_score :: real
  assessment_timestamp :: string

text \<open>
  \<^verbatim>\<open>calculate_risk_score\<close>. The result is the report or the exception that the
  \<^verbatim>\<open>except\<close> clause re-raises, together with the object's state after the call:
  \<^verbatim>\<open>fit_transform\<close> has stored the new parameters in \<^verbatim>\<open>self.scaler\<close> before anything
  later can raise. \<open>now\<close> is \<^verbatim>\<open>datetime.now().isoformat()\<close>.
\<close>

definition calculate_risk_score ::
  "wildfire_risk_model \<Rightarrow> string \<Rightarrow> features
     \<Rightarrow> (py_error + risk_report) \<times> wildfire_risk_model" where
  "calculate_risk_score self now property_data =
     (let features = map (\<lambda>feature_name. dict_get property_data feature_name 0) feature_names;
          features_array = [features]
      in case scaler_fit_transform features_array of
           Inl e \<Rightarrow> (Inl e, self)
         | Inr (fitted, features_normalized) \<Rightarrow>
             (let self = self\<lparr>scaler := fitted\<rparr> in
              case features_normalized of
                [] \<Rightarrow> (Inl IndexError, self)
              | row # _ \<Rightarrow>
                  (let risk_score = model_predict self row;
                       veg = calculate_vegetation_risk property_data;
                       weather = calculate_weather_risk property_data;
                       terrain = calculate_terrain_risk property_data;
                       proximity = calculate_proximity_risk property_data;
                       recs = generate_recommendations risk_score veg weather terrain
                   in case model_simulate_fire_spread property_data of
                        Inl e \<Rightarrow> (Inl e, self)
                      | Inr fire_spread \<Rightarrow>
                          (Inr \<lparr>overall_risk_score = risk_score,
                                risk_level = get_risk_level risk_score,
                                component_scores =
                                  \<lparr>vegetation_risk = veg, weather_risk = weather,
                                   terrain_risk = terrain, proximity_risk = proximity\<rparr>,
                                recommendations = recs,
                                fire_spread_simulation = fire_spread,
                                confidence_score = 0.85,
                                assessment_timestamp = now\<rparr>, self))))"

section \<open>Hourly fire-spread projection (api\_server.py)\<close>

record spread_sample =
  hour :: int
  radius_km :: real
  area_hectares :: real
  perimeter_km :: real

record spread_response =
  simulation_id :: string
  start_point :: features
  spread_patterns :: "spread_sample list"
  total_area_hectares :: real
  conditions_weather :: features
  conditions_terrain :: features

datatype http_error = HTTPException nat py_error

text \<open>The rate computed in the loop body; it reads nothing that the loop changes.\<close>

definition hourly_spread_rate :: "features \<Rightarrow> features \<Rightarrow> real" where
  "hourly_spread_rate weather_conditions terrain_data =
     (let wind_factor = dict_get weather_conditions ''wind_speed'' 10 / 10;
          slope_factor = dict_get terrain_data ''slope'' 10 / 20
      in 0.5 * (1 + wind_factor + slope_factor))"

text \<open>
  The body of \<^verbatim>\<open>for hour in range(hours)\<close>, over the hours still to run, with the two
  variables the loop updates: \<open>current_radius\<close> and the list \<open>acc\<close> of samples so far.
\<close>

fun spread_loop ::
  "features \<Rightarrow> features \<Rightarrow> int list \<Rightarrow> real \<Rightarrow> spread_sample list \<Rightarrow> spread_sample list" where
  "spread_loop weather_conditions terrain_data [] current_radius acc = acc"
| "spread_loop weather_conditions terrain_data (hr # rest) current_radius acc =
     (let spread_rate = hourly_spread_rate weather_conditions terrain_data;
          current_radius = current_radius + spread_rate
      in spread_loop weather_conditions terrain_data rest current_radius
           (acc @ [\<lparr>hour = hr,
                     radius_km = current_radius,
                     area_hectares = 3.14159 * current_radius\<^sup>2 * 100,
                     perimeter_km = 2 * 3.14159 * current_radius\<rparr>]))"

text \<open>
  \<^verbatim>\<open>simulate_fire_spread\<close>: \<open>[0..hours - 1]\<close> is \<^verbatim>\<open>range(hours)\<close>, empty when
  \<open>hours \<le> 0\<close>; then \<^verbatim>\<open>spread_patterns[-1]\<close> raises \<^verbatim>\<open>IndexError\<close>, which the handler
  turns into the HTTP error 500. \<open>sim_id\<close> is the identifier made from the clock.
\<close>

definition simulate_fire_spread ::
  "string \<Rightarrow> features \<Rightarrow> features \<Rightarrow> features \<Rightarrow> int \<Rightarrow> http_error + spread_response" where
  "simulate_fire_spread sim_id start weather_conditions terrain_data hours =
     (let patterns = spread_loop weather_conditions terrain_data [0..hours - 1] 0 []
      in if patterns = [] then Inl (HTTPException 500 IndexError)
         else Inr \<lparr>simulation_id = sim_id,
                   start_point = start,
                   spread_patterns = patterns,
                   total_area_hectares = area_hectares (last patterns),
                   conditions_weather = weather_conditions,
                   conditions_terrain = terrain_data\<rparr>)"

section \<open>Auxiliary facts\<close>

subsection \<open>Bounds of the scorers\<close>

lemma ladder_nonneg:
  "0 \<le> (w::real) \<Longrightarrow> 0 \<le> a \<Longrightarrow> 0 \<le> b \<Longrightarrow> 0 \<le> (if p then w + a else if q then w + b else w)"
  by simp

lemma vegetation_risk_bounds:
  "0 \<le> calculate_vegetation_risk data \<and> calculate_vegetation_risk data \<le> 100"
  by (simp add: calculate_vegetation_risk_def Let_def)

lemma weather_risk_upper: "calculate_weather_risk data \<le> 100"
  unfolding calculate_weather_risk_def Let_def by (rule min.cobounded2)

lemma weather_risk_lower: "0 \<le> calculate_weather_risk data"
  unfolding calculate_weather_risk_def Let_def
  by (intro min.boundedI ladder_nonneg) simp_all

lemma proximity_risk_bounds:
  "0 \<le> calculate_proximity_risk data \<and> calculate_proximity_risk data \<le> 100"
  by (simp add: calculate_proximity_risk_def Let_def)

lemma terrain_risk_bounds:
  "0 \<le> calculate_terrain_risk data \<and> calculate_terrain_risk data \<le> 60"
  by (simp add: calculate_terrain_risk_def Let_def)

lemma dict_get_extend_with:
  "dict_get (extend_with dflt d) k x = dict_get d k (dflt k)"
  by (simp add: dict_get_def extend_with_def split: option.split)

subsection \<open>The scaler fitted on one sample\<close>

text \<open>
  On a single row the column means are the row itself and every variance is zero, so every
  scale is 1 and the transformed row is zero everywhere.
\<close>

lemma scaler_fit_single:
  "scaler_fit [x] = Inr \<lparr>mean_param = Some x, scale_param = Some (replicate (length x) 1)\<rparr>"
proof -
  have m: "map (\<lambda>j. sum_list (map (\<lambda>r. r ! j) [x]) / real (length [x])) [0..<length x] = x"
    by (simp add: map_nth)
  have v: "map (\<lambda>j. sum_list (map (\<lambda>r. (r ! j - x ! j)\<^sup>2) [x]) / real (length [x])) [0..<length x]
             = replicate (length x) 0"
    by (simp add: map_replicate_const)
  show ?thesis
    unfolding scaler_fit_def Let_def list.case m v
    by (simp add: map_replicate_const)
qed

lemma scaler_transform_single:
  "scaler_transform x (replicate (length x) 1) [x] = [replicate (length x) 0]"
  by (simp add: scaler_transform_def map_replicate_const)

lemma scaler_fit_transform_single:
  "scaler_fit_transform [x]
     = Inr (\<lparr>mean_param = Some x, scale_param = Some (replicate (length x) 1)\<rparr>,
            [replicate (length x) 0])"
  by (simp add: scaler_fit_transform_def scaler_fit_single scaler_transform_single)

lemma length_feature_names: "length feature_names = 15"
  by (simp add: feature_names_def)

lemma calculate_risk_score_unfold:
  "calculate_risk_score self now d =
     (let self' = self\<lparr>scaler :=
                    \<lparr>mean_param = Some (map (\<lambda>feature_name. dict_get d feature_name 0) feature_names),
                     scale_param = Some (replicate 15 1)\<rparr>\<rparr>;
          risk_score = model_predict self (replicate 15 0)
      in case model_simulate_fire_spread d of
           Inl e \<Rightarrow> (Inl e, self')
         | Inr fs \<Rightarrow>
             (Inr \<lparr>overall_risk_score = risk_score,
                   risk_level = get_risk_level risk_score,
                   component_scores =
                     \<lparr>vegetation_risk = calculate_vegetation_risk d,
                      weather_risk = calculate_weather_risk d,
                      terrain_risk = calculate_terrain_risk d,
                      proximity_risk = calculate_proximity_risk d\<rparr>,
                   recommendations =
                     generate_recommendations risk_score (calculate_vegetation_risk d)
                       (calculate_weather_risk d) (calculate_terrain_risk d),
                   fire_spread_simulation = fs,
                   confidence_score = 0.85,
                   assessment_timestamp = now\<rparr>, self'))"
  unfolding calculate_risk_score_def Let_def scaler_fit_transform_single
  by (simp add: length_feature_names split: sum.split)

text \<open>The call returns a report unless the single-shot spread rate is zero.\<close>

lemma calculate_risk_score_returns:
  "(\<exists>r. fst (calculate_risk_score self now d) = Inr r)
     = (0.5 * (1 + dict_get d ''wind_speed'' 10 / 20) * (1 + dict_get d ''slope'' 0 / 30) \<noteq> 0)"
  unfolding calculate_risk_score_unfold Let_def model_simulate_fire_spread_def
  by (auto split: sum.splits)

subsection \<open>The hourly loop in closed form\<close>

lemma spread_loop_length:
  "length (spread_loop wc td hs r acc) = length acc + length hs"
  by (induction hs arbitrary: r acc) (simp_all add: Let_def)

lemma spread_loop_radius:
  "map radius_km (spread_loop wc td hs r acc)
     = map radius_km acc
       @ map (\<lambda>k. r + real (Suc k) * hourly_spread_rate wc td) [0..<length hs]"
proof (induction hs arbitrary: r acc)
  case Nil
  show ?case by simp
next
  case (Cons h hs)
  have "map (\<lambda>k. r + real (Suc k) * hourly_spread_rate wc td) [0..<Suc (length hs)]
          = (r + hourly_spread_rate wc td)
            # map (\<lambda>k. r + hourly_spread_rate wc td + real (Suc k) * hourly_spread_rate wc td)
                [0..<length hs]"
    by (simp add: map_upt_Suc algebra_simps del: upt_Suc)
  with Cons.IH show ?case
    by (simp add: Let_def del: upt_Suc)
qed

lemma simulate_fire_spread_patterns:
  "simulate_fire_spread sid sp wc td hours = Inr resp
     \<Longrightarrow> spread_patterns resp = spread_loop wc td [0..hours - 1] 0 []"
  by (auto simp add: simulate_fire_spread_def Let_def split: if_splits)

lemma simulate_fire_spread_returns:
  "0 < hours \<Longrightarrow> \<exists>resp. simulate_fire_spread sid sp wc td hours = Inr resp"
proof -
  assume "0 < hours"
  then have "length (spread_loop wc td [0..hours - 1] 0 []) \<noteq> 0"
    by (simp add: spread_loop_length)
  then show ?thesis
    by (auto simp add: simulate_fire_spread_def Let_def)
qed

lemma simulate_fire_spread_fails:
  "hours \<le> 0 \<Longrightarrow> simulate_fire_spread sid sp wc td hours = Inl (HTTPException 500 IndexError)"
  by (simp add: simulate_fire_spread_def)

lemma simulate_radius_nth:
  assumes "simulate_fire_spread sid sp wc td hours = Inr resp"
    and "k < length (spread_patterns resp)"
  shows "radius_km (spread_patterns resp ! k) = real (Suc k) * hourly_spread_rate wc td"
proof -
  have ps: "spread_patterns resp = spread_loop wc td [0..hours - 1] 0 []"
    using assms(1) by (rule simulate_fire_spread_patterns)
  have len: "k < length [0..hours - 1]"
    using assms(2) unfolding ps spread_loop_length by simp
  have "radius_km (spread_patterns resp ! k) = map radius_km (spread_patterns resp) ! k"
    using assms(2) by simp
  also have "\<dots> = map (\<lambda>k. 0 + real (Suc k) * hourly_spread_rate wc td) [0..<length [0..hours - 1]] ! k"
    unfolding ps spread_loop_radius by simp
  also have "\<dots> = real (Suc k) * hourly_spread_rate wc td"
    using len by (simp del: length_upto)
  finally show ?thesis .
qed

lemma range_2: "[0..1] = [0, 1::int]"
  by (simp add: upto.simps)

section \<open>The claims\<close>

text \<open>
  C1: with one network, any two feature mappings get the same overall risk score. The
  scaler is fitted again on the single feature vector of each call, so the row given to
  the network is the zero vector of length 15 whatever the features are, and the score
  of every report is the network's value there.
\<close>

theorem risk_score_independent_of_features:
  assumes "model_predict self1 = model_predict self2"
    and "fst (calculate_risk_score self1 now1 d1) = Inr r1"
    and "fst (calculate_risk_score self2 now2 d2) = Inr r2"
  shows "overall_risk_score r1 = overall_risk_score r2
         \<and> overall_risk_score r1 = model_predict self1 (replicate 15 0)"
  using assms unfolding calculate_risk_score_unfold Let_def
  by (auto split: sum.splits)

theorem risk_score_independent_of_features_witness:
  "\<exists>r1 r2.
     fst (calculate_risk_score
            \<lparr>model_predict = (\<lambda>row. 50 + sum_list row), scaler = \<lparr>mean_param = None, scale_param = None\<rparr>\<rparr>
            ''t1'' [''ndvi'' \<mapsto> 0.65, ''slope'' \<mapsto> 15]) = Inr r1
     \<and> fst (calculate_risk_score
            \<lparr>model_predict = (\<lambda>row. 50 + sum_list row), scaler = \<lparr>mean_param = None, scale_param = None\<rparr>\<rparr>
            ''t2'' [''ndvi'' \<mapsto> 0.1, ''temperature'' \<mapsto> 40]) = Inr r2
     \<and> overall_risk_score r1 = overall_risk_score r2
     \<and> overall_risk_score r1 = 50"
proof -
  let ?self = "\<lparr>model_predict = (\<lambda>row. 50 + sum_list row),
                scaler = \<lparr>mean_param = None, scale_param = None\<rparr>\<rparr>"
  obtain r1 where r1: "fst (calculate_risk_score ?self ''t1'' [''ndvi'' \<mapsto> 0.65, ''slope'' \<mapsto> 15]) = Inr r1"
    using calculate_risk_score_returns [of ?self "''t1''" "[''ndvi'' \<mapsto> 0.65, ''slope'' \<mapsto> 15]"]
    by (auto simp add: dict_get_def)
  obtain r2 where r2: "fst (calculate_risk_score ?self ''t2'' [''ndvi'' \<mapsto> 0.1, ''temperature'' \<mapsto> 40]) = Inr r2"
    using calculate_risk_score_returns [of ?self "''t2''" "[''ndvi'' \<mapsto> 0.1, ''temperature'' \<mapsto> 40]"]
    by (auto simp add: dict_get_def)
  have "overall_risk_score r1 = overall_risk_score r2
        \<and> overall_risk_score r1 = model_predict ?self (replicate 15 0)"
    using risk_score_independent_of_features [OF refl r1 r2] .
  then show ?thesis using r1 r2 by (auto simp add: sum_list_replicate)
qed

text \<open>
  C2, as amended: on every feature mapping with \<open>distance_to_water = 10\<close>,
  \<open>distance_to_road = 10\<close> and \<open>population_density = 2000\<close> the proximity risk is 80, the
  sum \<open>30 + 30 + 20\<close> of the ladder, which the clamp at 100 leaves as it is.
\<close>

theorem proximity_risk_example_80:
  assumes "data ''distance_to_water'' = Some 10"
    and "data ''distance_to_road'' = Some 10"
    and "data ''population_density'' = Some 2000"
  shows "calculate_proximity_risk data = 80"
  using assms by (simp add: calculate_proximity_risk_def dict_get_def)

theorem proximity_risk_example_80_witness:
  "[''distance_to_water'' \<mapsto> 10, ''distance_to_road'' \<mapsto> 10, ''population_density'' \<mapsto> 2000]
     ''distance_to_water'' = Some (10::real)
   \<and> calculate_proximity_risk
       [''distance_to_water'' \<mapsto> 10, ''distance_to_road'' \<mapsto> 10, ''population_density'' \<mapsto> 2000] = 80"
  using proximity_risk_example_80
    [of "[''distance_to_water'' \<mapsto> 10, ''distance_to_road'' \<mapsto> 10, ''population_density'' \<mapsto> 2000]"]
  by simp

text \<open>C2 as stated fails: at the claim's own input the result is not 100.\<close>

theorem proximity_risk_example_not_100:
  "calculate_proximity_risk
     [''distance_to_water'' \<mapsto> 10, ''distance_to_road'' \<mapsto> 10, ''population_density'' \<mapsto> 2000] \<noteq> 100"
  by (simp add: calculate_proximity_risk_def dict_get_def)

text \<open>
  C3, as amended: with \<open>wind_speed = 10\<close> and \<open>slope = 20\<close> the hourly rate is the constant
  \<open>0.5 * (1 + 1 + 1) = 1.5\<close> km/h; for a duration of at least two hours the projection
  returns one sample per hour, the radius is 1.5 km after hour 0 and 3.0 km after hour 1,
  and every hour adds the rate to the radius.
\<close>

theorem hourly_projection_example:
  assumes "weather_conditions ''wind_speed'' = Some 10"
    and "terrain_data ''slope'' = Some 20"
    and "2 \<le> hours"
  shows "hourly_spread_rate weather_conditions terrain_data = 1.5
         \<and> (\<exists>resp. simulate_fire_spread sid sp weather_conditions terrain_data hours = Inr resp
               \<and> length (spread_patterns resp) = nat hours
               \<and> radius_km (spread_patterns resp ! 0) = 1.5
               \<and> radius_km (spread_patterns resp ! 1) = 3
               \<and> (\<forall>k. Suc k < nat hours \<longrightarrow>
                     radius_km (spread_patterns resp ! Suc k)
                       = radius_km (spread_patterns resp ! k) + 1.5))"
proof -
  have rate: "hourly_spread_rate weather_conditions terrain_data = 1.5"
    using assms(1,2) by (simp add: hourly_spread_rate_def dict_get_def)
  from assms(3) obtain resp
    where resp: "simulate_fire_spread sid sp weather_conditions terrain_data hours = Inr resp"
    using simulate_fire_spread_returns [of hours sid sp weather_conditions terrain_data] by auto
  have len: "length (spread_patterns resp) = nat hours"
    using simulate_fire_spread_patterns [OF resp] by (simp add: spread_loop_length)
  have nth: "radius_km (spread_patterns resp ! k) = real (Suc k) * 1.5"
    if "k < nat hours" for k
    using simulate_radius_nth [OF resp, of k] that len rate by simp
  have "radius_km (spread_patterns resp ! 0) = 1.5"
    using nth [of 0] assms(3) by simp
  moreover have "radius_km (spread_patterns resp ! 1) = 3"
    using nth [of 1] assms(3) by simp
  moreover have "\<forall>k. Suc k < nat hours \<longrightarrow>
      radius_km (spread_patterns resp ! Suc k) = radius_km (spread_patterns resp ! k) + 1.5"
  proof (intro allI impI)
    fix k assume "Suc k < nat hours"
    then show "radius_km (spread_patterns resp ! Suc k) = radius_km (spread_patterns resp ! k) + 1.5"
      using nth [of k] nth [of "Suc k"] by (simp add: algebra_simps)
  qed
  ultimately show ?thesis using rate resp len by blast
qed

theorem hourly_projection_example_witness:
  "hourly_spread_rate [''wind_speed'' \<mapsto> 10] [''slope'' \<mapsto> 20] = 1.5
   \<and> (\<exists>resp. simulate_fire_spread ''sim_0'' Map.empty [''wind_speed'' \<mapsto> 10] [''slope'' \<mapsto> 20] 2 = Inr resp
         \<and> map radius_km (spread_patterns resp) = [1.5, 3])"
proof -
  have "hourly_spread_rate [''wind_speed'' \<mapsto> 10] [''slope'' \<mapsto> 20] = 1.5
         \<and> (\<exists>resp. simulate_fire_spread ''sim_0'' Map.empty [''wind_speed'' \<mapsto> 10] [''slope'' \<mapsto> 20] 2 = Inr resp
               \<and> length (spread_patterns resp) = nat 2
               \<and> radius_km (spread_patterns resp ! 0) = 1.5
               \<and> radius_km (spread_patterns resp ! 1) = 3
               \<and> (\<forall>k. Suc k < nat 2 \<longrightarrow>
                     radius_km (spread_patterns resp ! Suc k)
                       = radius_km (spread_patterns resp ! k) + 1.5))"
    by (rule hourly_projection_example) simp_all
  then obtain resp where
    r: "simulate_fire_spread ''sim_0'' Map.empty [''wind_speed'' \<mapsto> 10] [''slope'' \<mapsto> 20] 2 = Inr resp"
      "length (spread_patterns resp) = 2"
      "radius_km (spread_patterns resp ! 0) = 1.5" "radius_km (spread_patterns resp ! 1) = 3"
    and rate: "hourly_spread_rate [''wind_speed'' \<mapsto> 10] [''slope'' \<mapsto> 20] = 1.5"
    by auto
  have "map radius_km (spread_patterns resp) = [1.5, 3]"
    using r(2-4) by (auto simp add: list_eq_iff_nth_eq less_Suc_eq numeral_2_eq_2)
  with r(1) rate show ?thesis by simp
qed

text \<open>
  C3 as stated fails: at the claim's input the rate is not 1.0, and the two-hour
  projection has the radii 1.5 and 3.0, not 1.0 and 2.0.
\<close>

theorem hourly_projection_example_not_1:
  "hourly_spread_rate [''wind_speed'' \<mapsto> 10] [''slope'' \<mapsto> 20] \<noteq> 1
   \<and> map_sum id (map radius_km \<circ> spread_patterns)
       (simulate_fire_spread ''sim_0'' Map.empty [''wind_speed'' \<mapsto> 10] [''slope'' \<mapsto> 20] 2)
     = Inr [1.5, 3]"
  by (simp add: hourly_spread_rate_def dict_get_def simulate_fire_spread_def Let_def range_2)

text \<open>
  C4, as amended: the terrain risk carries no upper clamp, yet on every feature mapping it
  lies between 0 and 60, so it never exceeds 100; the vegetation, weather and proximity
  risks always lie between 0 and 100.
\<close>

theorem heuristic_scores_bounded:
  "0 \<le> calculate_terrain_risk data \<and> calculate_terrain_risk data \<le> 60
   \<and> 0 \<le> calculate_vegetation_risk data \<and> calculate_vegetation_risk data \<le> 100
   \<and> 0 \<le> calculate_weather_risk data \<and> calculate_weather_risk data \<le> 100
   \<and> 0 \<le> calculate_proximity_risk data \<and> calculate_proximity_risk data \<le> 100"
  using terrain_risk_bounds [of data] vegetation_risk_bounds [of data]
    weather_risk_lower [of data] weather_risk_upper [of data] proximity_risk_bounds [of data]
  by blast

text \<open>C4 as stated fails: no feature mapping has a terrain risk above 100.\<close>

theorem terrain_risk_never_exceeds_100:
  "\<not> (\<exists>data. calculate_terrain_risk data > 100)"
  by (simp add: calculate_terrain_risk_def Let_def not_less)

text \<open>
  C5, as amended: each of the four scorers treats a missing key as the default that the
  scorer passes to the lookup, that is 50 for \<open>fuel_moisture\<close>, 20 for \<open>temperature\<close>, 50
  for \<open>humidity\<close>, 10 for \<open>distance_to_water\<close>, 1 for \<open>distance_to_road\<close>, 100 for
  \<open>population_density\<close> and 0 for every other key: the score on a mapping equals the score
  on the mapping completed with these defaults. For the terrain risk, whose two defaults
  are 0, this is the completion with 0.
\<close>

theorem scorers_missing_key_defaults:
  "calculate_vegetation_risk (extend_with heuristic_default data) = calculate_vegetation_risk data
   \<and> calculate_weather_risk (extend_with heuristic_default data) = calculate_weather_risk data
   \<and> calculate_terrain_risk (extend_with heuristic_default data) = calculate_terrain_risk data
   \<and> calculate_proximity_risk (extend_with heuristic_default data) = calculate_proximity_risk data
   \<and> calculate_terrain_risk (extend_with (\<lambda>k. 0) data) = calculate_terrain_risk data"
  unfolding calculate_vegetation_risk_def calculate_weather_risk_def
    calculate_terrain_risk_def calculate_proximity_risk_def dict_get_extend_with
  by (simp add: heuristic_default_def)

text \<open>
  C5 as stated fails: completing a mapping with 0 changes the vegetation risk (the missing
  \<open>fuel_moisture\<close> counts as 50), the weather risk (the missing \<open>humidity\<close> counts as 50) and
  the proximity risk (the missing \<open>distance_to_water\<close> counts as 10).
\<close>

theorem missing_key_not_zero:
  "calculate_vegetation_risk (extend_with (\<lambda>k. 0) [''ndvi'' \<mapsto> 0.7]) = 80
   \<and> calculate_vegetation_risk [''ndvi'' \<mapsto> 0.7] = 40
   \<and> calculate_weather_risk (extend_with (\<lambda>k. 0) Map.empty) = 25
   \<and> calculate_weather_risk Map.empty = 0
   \<and> calculate_proximity_risk (extend_with (\<lambda>k. 0) Map.empty) = 0
   \<and> calculate_proximity_risk Map.empty = 30"
  by (simp add: calculate_vegetation_risk_def calculate_weather_risk_def
      calculate_proximity_risk_def dict_get_def extend_with_def)

text \<open>
  C6: an inference call should leave the trained model's state, the scaler's mean and
  scale included, as it was. The code does not: after every call the scaler holds the
  feature vector of that call as its mean and 1 as every scale, whatever it held before;
  a scaler loaded with mean 10 and scale 2 in every column has lost both after one call.
\<close>

theorem inference_refits_scaler:
  "snd (calculate_risk_score self now property_data)
     = self\<lparr>scaler :=
              \<lparr>mean_param = Some (map (\<lambda>feature_name. dict_get property_data feature_name 0) feature_names),
               scale_param = Some (replicate 15 1)\<rparr>\<rparr>
   \<and> scaler (snd (calculate_risk_score
        \<lparr>model_predict = predict,
         scaler = \<lparr>mean_param = Some (replicate 15 10), scale_param = Some (replicate 15 2)\<rparr>\<rparr>
        now [''ndvi'' \<mapsto> 0.65, ''slope'' \<mapsto> 15]))
     = \<lparr>mean_param = Some [0.65, 0, 0, 0, 0, 15, 0, 0, 0, 0, 0, 0, 0, 0, 0],
        scale_param = Some [1, 1, 1, 1, 1, 1, 1, 1, 1, 1, 1, 1, 1, 1, 1]\<rparr>"
  unfolding calculate_risk_score_unfold Let_def
  by (simp add: feature_names_def dict_get_def numeral_eq_Suc split: sum.split)

text \<open>
  C7: the risk level is EXTREME exactly for scores of at least 80, HIGH exactly from 60
  up to but not including 80, MODERATE from 40 to 60, LOW from 20 to 40, and MINIMAL
  exactly below 20; each tier includes its lower bound.
\<close>

theorem get_risk_level_tiers:
  "(get_risk_level s = ''EXTREME'') = (s \<ge> 80)
   \<and> (get_risk_level s = ''HIGH'') = (60 \<le> s \<and> s < 80)
   \<and> (get_risk_level s = ''MODERATE'') = (40 \<le> s \<and> s < 60)
   \<and> (get_risk_level s = ''LOW'') = (20 \<le> s \<and> s < 40)
   \<and> (get_risk_level s = ''MINIMAL'') = (s < 20)"
  by (auto simp add: get_risk_level_def)

text \<open>
  C8: the recommendations are, in this order, Vegetation Management (cost 2500, reduction
  15) exactly when the vegetation risk is above 60, Install Sprinkler System (5000, 20)
  exactly when the overall score is above 70, Create Fuel Breaks (3500, 10) exactly when
  the terrain risk is above 50, and Emergency Planning (0, 5) always and last. The list
  has one to four entries and is never empty; for overall 75, vegetation 70 and terrain
  40 it is Vegetation Management, Install Sprinkler System, Emergency Planning.
\<close>

theorem generate_recommendations_order:
  "map (\<lambda>r. (action r, estimated_cost r, risk_reduction r))
       (generate_recommendations overall veg weather terrain)
     = (if veg > 60 then [(''Vegetation Management'', 2500, 15)] else [])
       @ (if overall > 70 then [(''Install Sprinkler System'', 5000, 20)] else [])
       @ (if terrain > 50 then [(''Create Fuel Breaks'', 3500, 10)] else [])
       @ [(''Emergency Planning'', 0, 5)]
   \<and> 1 \<le> length (generate_recommendations overall veg weather terrain)
   \<and> length (generate_recommendations overall veg weather terrain) \<le> 4
   \<and> generate_recommendations overall veg weather terrain \<noteq> []
   \<and> map action (generate_recommendations 75 70 weather 40)
       = [''Vegetation Management'', ''Install Sprinkler System'', ''Emergency Planning'']"
  by (simp add: generate_recommendations_def)

text \<open>
  C9, as amended: for every wind speed and slope whose hourly rate
  \<open>0.5 * (1 + wind_speed / 10 + slope / 20)\<close> is not negative (all non-negative wind speeds
  and slopes among them) and every duration for which the projection returns, the radii
  of the samples are non-decreasing: each hour's radius is at least the previous hour's.
\<close>

theorem spread_radius_monotone:
  assumes "0 \<le> hourly_spread_rate weather_conditions terrain_data"
    and "simulate_fire_spread sid sp weather_conditions terrain_data hours = Inr resp"
  shows "sorted (map radius_km (spread_patterns resp))
         \<and> (\<forall>k. Suc k < length (spread_patterns resp) \<longrightarrow>
               radius_km (spread_patterns resp ! k) \<le> radius_km (spread_patterns resp ! Suc k))"
proof -
  have mono: "radius_km (spread_patterns resp ! i) \<le> radius_km (spread_patterns resp ! j)"
    if "i \<le> j" "j < length (spread_patterns resp)" for i j
  proof -
    have "real (Suc i) * hourly_spread_rate weather_conditions terrain_data
            \<le> real (Suc j) * hourly_spread_rate weather_conditions terrain_data"
      using that(1) assms(1) by (intro mult_right_mono) simp_all
    then show ?thesis
      using that simulate_radius_nth [OF assms(2), of i] simulate_radius_nth [OF assms(2), of j]
      by simp
  qed
  have "sorted (map radius_km (spread_patterns resp))"
    unfolding sorted_iff_nth_mono using mono by simp
  moreover have "\<forall>k. Suc k < length (spread_patterns resp) \<longrightarrow>
      radius_km (spread_patterns resp ! k) \<le> radius_km (spread_patterns resp ! Suc k)"
    using mono by simp
  ultimately show ?thesis by simp
qed

theorem spread_radius_monotone_witness:
  "0 \<le> hourly_spread_rate [''wind_speed'' \<mapsto> 10] [''slope'' \<mapsto> 20]
   \<and> (\<exists>resp. simulate_fire_spread ''sim_0'' Map.empty [''wind_speed'' \<mapsto> 10] [''slope'' \<mapsto> 20] 3 = Inr resp
         \<and> length (spread_patterns resp) = 3
         \<and> sorted (map radius_km (spread_patterns resp)))"
proof -
  have rate: "0 \<le> hourly_spread_rate [''wind_speed'' \<mapsto> 10] [''slope'' \<mapsto> 20]"
    by (simp add: hourly_spread_rate_def dict_get_def)
  obtain resp where
    resp: "simulate_fire_spread ''sim_0'' Map.empty [''wind_speed'' \<mapsto> 10] [''slope'' \<mapsto> 20] 3 = Inr resp"
    using simulate_fire_spread_returns
      [of 3 "''sim_0''" Map.empty "[''wind_speed'' \<mapsto> 10]" "[''slope'' \<mapsto> 20]"]
    by auto
  have "length (spread_patterns resp) = 3"
    using simulate_fire_spread_patterns [OF resp] by (simp add: spread_loop_length)
  moreover have "sorted (map radius_km (spread_patterns resp))"
    using spread_radius_monotone [OF rate resp] by simp
  ultimately show ?thesis using rate resp by simp
qed

text \<open>
  C9 as stated fails: with no wind and a slope of -40 the rate is -0.5 km/h, and the
  two-hour projection has the radii -0.5 and -1.0, the second below the first.
\<close>

theorem radius_decreasing_example:
  "map_sum id (map radius_km \<circ> spread_patterns)
     (simulate_fire_spread ''sim_0'' Map.empty [''wind_speed'' \<mapsto> 0] [''slope'' \<mapsto> - 40] 2)
     = Inr [- 0.5, - 1]"
  by (simp add: hourly_spread_rate_def dict_get_def simulate_fire_spread_def Let_def range_2)

text \<open>
  C10: on every feature mapping the terrain risk is one of 0, 15, 20, 25, 35, 40, 45 and
  60: the slope gives one of 0, 15, 25, 40 and a south-facing aspect adds 20. Without a
  clamp the result still never exceeds 60, and so never 100.
\<close>

theorem terrain_risk_values:
  "calculate_terrain_risk data \<in> {0, 15, 20, 25, 35, 40, 45, 60}
   \<and> calculate_terrain_risk data \<le> 60 \<and> calculate_terrain_risk data \<le> 100"
  by (simp add: calculate_terrain_risk_def Let_def)

end
